theory Spec2Isabelle
  imports Complex_Main
begin

chapter \<open>The answering-machine-detection decision engine\<close>

text \<open>
  A shallow embedding of the part of the repository that decides whether a call was
  answered by a human or a machine: the phone number normalizer, the four detection
  strategies behind \<^verbatim>\<open>createDetector\<close>, and the webhook routes that merge the providers'
  callbacks into the call record. Each definition carries the source it embeds. What the
  code reads from outside (the process environment, the telephony providers, the inference
  service, the language model) is a parameter; promises are modelled by their values, and
  every exception the source catches is a branch of the model.
\<close>

section \<open>Phone number normalizer (src/lib/phoneUtils.ts)\<close>

text \<open>
  JavaScript strings are modelled as \<^typ>\<open>string\<close>. The normalizer only ever looks at
  the ASCII digits of its input: the pattern \<^verbatim>\<open>\D\<close> (without the unicode flag) matches
  every code unit outside \<^verbatim>\<open>0-9\<close>, so any other character, ASCII or not, is removed.
\<close>

definition is_digit :: "char \<Rightarrow> bool" where
  "is_digit c = (c \<in> set ''0123456789'')"

text \<open>\<^verbatim>\<open>s.startsWith(p)\<close>\<close>

definition startsWith :: "string \<Rightarrow> string \<Rightarrow> bool" where
  "startsWith s p = (take (length p) s = p)"

text \<open>
  \<^verbatim>\<open>
  export function formatPhoneNumber(input: string, defaultCountryCode: string = "+1"): string {
    const digits = input.replace(/\D/g, "");
    if (!digits) { return ""; }
    if (digits.length === 11 && digits.startsWith("1")) { return `+${digits}`; }
    if (digits.length === 12 && digits.startsWith("91")) { return `+${digits}`; }
    if (digits.length === 10) {
      if (digits.startsWith("6") || digits.startsWith("7") || digits.startsWith("8")
          || digits.startsWith("9")) { return `+91${digits}`; }
      return `+1${digits}`;
    }
    if (digits.length > 12) { return `+${digits}`; }
    return `${defaultCountryCode}${digits}`;
  }
  \<close>
\<close>

definition formatPhoneNumber :: "string \<Rightarrow> string \<Rightarrow> string" where
  "formatPhoneNumber input defaultCountryCode =
     (let digits = filter is_digit input in
      if digits = [] then ''''
      else if length digits = 11 \<and> startsWith digits ''1'' then ''+'' @ digits
      else if length digits = 12 \<and> startsWith digits ''91'' then ''+'' @ digits
      else if length digits = 10 then
        (if startsWith digits ''6'' \<or> startsWith digits ''7'' \<or> startsWith digits ''8''
            \<or> startsWith digits ''9''
         then ''+91'' @ digits
         else ''+1'' @ digits)
      else if length digits > 12 then ''+'' @ digits
      else defaultCountryCode @ digits)"

text \<open>The regular expression \<^verbatim>\<open>/^\+\d{10,15}$/\<close>: a plus sign, then 10 to 15 digits,
  and nothing else.\<close>

definition phoneRegex_test :: "string \<Rightarrow> bool" where
  "phoneRegex_test s =
     (case s of
        [] \<Rightarrow> False
      | c # ds \<Rightarrow> c = CHR ''+'' \<and> 10 \<le> length ds \<and> length ds \<le> 15 \<and> list_all is_digit ds)"

text \<open>
  \<^verbatim>\<open>
  export function isValidPhoneNumber(phoneNumber: string): boolean {
    const formatted = formatPhoneNumber(phoneNumber);
    const phoneRegex = /^\+\d{10,15}$/;
    return phoneRegex.test(formatted);
  }
  \<close>
\<close>

definition isValidPhoneNumber :: "string \<Rightarrow> bool" where
  "isValidPhoneNumber phoneNumber = phoneRegex_test (formatPhoneNumber phoneNumber ''+1'')"


section \<open>JavaScript values\<close>

text \<open>
  Webhook bodies, collaborator responses and metadata bags are dynamically typed in the
  source (\<^verbatim>\<open>any\<close>), so they are modelled as JavaScript values. Numbers are idealised as
  reals (with \<open>JNaN\<close> for NaN); an object held inside a value is an association list that
  lists each key once. A metadata bag or a payload is a finite map from keys to values; a
  key bound to \<open>JUndef\<close> is a property that is present with the value \<^verbatim>\<open>undefined\<close>.
\<close>

datatype jsval =
    JUndef
  | JNull
  | JNaN
  | JBool bool
  | JNum real
  | JStr string
  | JArr "jsval list"
  | JObj "(string \<times> jsval) list"

type_synonym js_object = "string \<rightharpoonup> jsval"

fun truthy :: "jsval \<Rightarrow> bool" where
  "truthy JUndef = False"
| "truthy JNull = False"
| "truthy JNaN = False"
| "truthy (JBool b) = b"
| "truthy (JNum x) = (x \<noteq> 0)"
| "truthy (JStr s) = (s \<noteq> [])"
| "truthy (JArr xs) = True"
| "truthy (JObj kvs) = True"

text \<open>\<^verbatim>\<open>a || b\<close>\<close>

definition js_or :: "jsval \<Rightarrow> jsval \<Rightarrow> jsval" where
  "js_or a b = (if truthy a then a else b)"

text \<open>Destructuring a property out of a body: a missing property is \<^verbatim>\<open>undefined\<close>.\<close>

definition field :: "js_object \<Rightarrow> string \<Rightarrow> jsval" where
  "field p k = (case p k of None \<Rightarrow> JUndef | Some v \<Rightarrow> v)"




text \<open>\<^verbatim>\<open>s.toLowerCase()\<close> on the ASCII letters; the keywords searched for below are ASCII
  and no other character lower-cases into them.\<close>

definition to_lower :: "char \<Rightarrow> char" where
  "to_lower c =
     (case map_of (zip ''ABCDEFGHIJKLMNOPQRSTUVWXYZ'' ''abcdefghijklmnopqrstuvwxyz'') c of
        None \<Rightarrow> c
      | Some l \<Rightarrow> l)"


text \<open>\<^verbatim>\<open>s.includes(t)\<close>\<close>

fun str_includes :: "string \<Rightarrow> string \<Rightarrow> bool" where
  "str_includes [] t = (t = [])"
| "str_includes (c # s) t = (startsWith (c # s) t \<or> str_includes s t)"

subsection \<open>parseInt\<close>

text \<open>
  The built-in \<^verbatim>\<open>parseInt(x)\<close> with no radix: the argument is converted to a string,
  leading white space is skipped, an optional sign and an optional \<^verbatim>\<open>0x\<close> prefix are read,
  and the longest prefix of digits is the value; no digit gives NaN. White space is the
  ASCII white space; the value is exact (a double is exact below \<open>2^53\<close>).
\<close>

definition is_ws :: "char \<Rightarrow> bool" where
  "is_ws c = (c \<in> set [CHR 0x09, CHR 0x0A, CHR 0x0B, CHR 0x0C, CHR 0x0D, CHR 0x20])"

definition digit_value :: "char \<Rightarrow> nat" where
  "digit_value c =
     (case map_of (zip ''0123456789abcdef'' [0, 1, 2, 3, 4, 5, 6, 7, 8, 9, 10, 11, 12, 13, 14, 15])
             (to_lower c) of
        None \<Rightarrow> 16
      | Some n \<Rightarrow> n)"

definition digits_value :: "nat \<Rightarrow> string \<Rightarrow> nat" where
  "digits_value radix ds = foldl (\<lambda>acc c. acc * radix + digit_value c) 0 ds"

definition parseInt_string :: "string \<Rightarrow> jsval" where
  "parseInt_string s =
     (let s1 = dropWhile is_ws s;
          negative = startsWith s1 ''-'';
          s2 = (if startsWith s1 ''-'' \<or> startsWith s1 ''+'' then drop 1 s1 else s1);
          hex = (startsWith s2 ''0x'' \<or> startsWith s2 ''0X'');
          radix = (if hex then 16 else 10);
          s3 = (if hex then drop 2 s2 else s2);
          z = takeWhile (\<lambda>c. digit_value c < radix) s3
      in if z = [] then JNaN
         else JNum (if negative then - real (digits_value radix z)
                    else real (digits_value radix z)))"

text \<open>
  A number argument is first printed: for a magnitude that prints in plain decimal
  notation (zero, or between \<open>10^-6\<close> and \<open>10^21\<close>) the digits before the decimal point
  are read back, which truncates towards zero. An array prints as its elements joined by
  commas, so only its first element counts. \<^verbatim>\<open>true\<close>, \<^verbatim>\<open>null\<close>, \<^verbatim>\<open>undefined\<close>, \<^verbatim>\<open>NaN\<close>
  and \<^verbatim>\<open>[object Object]\<close> start with no digit.
\<close>

fun parseInt :: "jsval \<Rightarrow> jsval" where
  "parseInt (JStr s) = parseInt_string s"
| "parseInt (JNum x) = JNum (of_int (if 0 \<le> x then \<lfloor>x\<rfloor> else \<lceil>x\<rceil>))"
| "parseInt (JArr []) = JNaN"
| "parseInt (JArr (x # xs)) = parseInt x"
| "parseInt v = JNaN"


section \<open>Detection results and the four strategies (AmdDetector and its implementations)\<close>

datatype AmdResult = HUMAN | MACHINE | VOICEMAIL | UNDECIDED | TIMEOUT | ERROR

datatype AmdStrategy = TWILIO_NATIVE | JAMBONZ_SIP | HUGGINGFACE_MODEL | GEMINI_FLASH

datatype CallStatus = INITIATED | RINGING | ANSWERED | COMPLETED | FAILED | CANCELLED

text \<open>
  \<^verbatim>\<open>
  export interface AmdDetectionResult {
    result: AmdResult;
    confidence: number;
    metadata?: Record<string, any>;
  }
  \<close>
  The type annotation of \<^verbatim>\<open>confidence\<close> is not checked at run time: two operations copy
  the field out of a collaborator's response, so it holds a JavaScript value.
\<close>

record AmdDetectionResult =
  result :: AmdResult
  confidence :: jsval
  metadata :: js_object

subsection \<open>The collaborators\<close>










subsection \<open>TwilioNativeDetector\<close>


text \<open>
  \<^verbatim>\<open>
  async handleWebhook(payload: any): Promise<AmdDetectionResult | null> {
    const { AnsweringMachineDetectionStatus, AnsweredBy, CallStatus } = payload;
    const amdStatus = AnsweringMachineDetectionStatus || AnsweredBy;
    if (amdStatus) {
      switch (amdStatus) {
        case "human":
          return { result: AmdResult.HUMAN, confidence: 0.85, metadata: { twilioAmd: amdStatus,
              source: AnsweredBy ? "AnsweredBy" : "AnsweringMachineDetectionStatus" } };
        case "machine_start":
        case "machine_end_beep":
        case "machine_end_silence":
        case "machine":
          return { result: AmdResult.MACHINE, confidence: 0.8, metadata: (the same) };
        case "fax":
          return { result: AmdResult.MACHINE, confidence: 0.9, metadata: (the same) };
        default:
          return { result: AmdResult.UNDECIDED, confidence: 0.3, metadata: (the same) };
      }
    }
    return null;
  }
  \<close>
\<close>

definition TwilioNative_handleWebhook :: "js_object \<Rightarrow> AmdDetectionResult option" where
  "TwilioNative_handleWebhook payload =
     (let AnsweringMachineDetectionStatus = field payload ''AnsweringMachineDetectionStatus'';
          AnsweredBy = field payload ''AnsweredBy'';
          amdStatus = js_or AnsweringMachineDetectionStatus AnsweredBy;
          md = [''twilioAmd'' \<mapsto> amdStatus,
                ''source'' \<mapsto> JStr (if truthy AnsweredBy then ''AnsweredBy''
                                    else ''AnsweringMachineDetectionStatus'')]
      in if truthy amdStatus then
           (if amdStatus = JStr ''human'' then
              Some \<lparr> result = HUMAN, confidence = JNum 0.85, metadata = md \<rparr>
            else if amdStatus = JStr ''machine_start'' \<or> amdStatus = JStr ''machine_end_beep''
                 \<or> amdStatus = JStr ''machine_end_silence'' \<or> amdStatus = JStr ''machine'' then
              Some \<lparr> result = MACHINE, confidence = JNum 0.8, metadata = md \<rparr>
            else if amdStatus = JStr ''fax'' then
              Some \<lparr> result = MACHINE, confidence = JNum 0.9, metadata = md \<rparr>
            else
              Some \<lparr> result = UNDECIDED, confidence = JNum 0.3, metadata = md \<rparr>)
         else None)"

subsection \<open>JambonzSipDetector\<close>






text \<open>
  \<^verbatim>\<open>
  async handleWebhook(payload: any): Promise<AmdDetectionResult | null> {
    const { amd_human_detected, amd_machine_detected, amd_decision_timeout } = payload;
    if (amd_human_detected) {
      return { result: AmdResult.HUMAN, confidence: 0.9, metadata: { jambonzAmd: "human_detected" } };
    }
    if (amd_machine_detected) {
      return { result: AmdResult.MACHINE, confidence: 0.85, metadata: { jambonzAmd: "machine_detected" } };
    }
    if (amd_decision_timeout) {
      return { result: AmdResult.TIMEOUT, confidence: 0.5, metadata: { jambonzAmd: "decision_timeout" } };
    }
    return null;
  }
  \<close>
\<close>

definition JambonzSip_handleWebhook :: "js_object \<Rightarrow> AmdDetectionResult option" where
  "JambonzSip_handleWebhook payload =
     (if truthy (field payload ''amd_human_detected'') then
        Some \<lparr> result = HUMAN, confidence = JNum 0.9,
               metadata = [''jambonzAmd'' \<mapsto> JStr ''human_detected''] \<rparr>
      else if truthy (field payload ''amd_machine_detected'') then
        Some \<lparr> result = MACHINE, confidence = JNum 0.85,
               metadata = [''jambonzAmd'' \<mapsto> JStr ''machine_detected''] \<rparr>
      else if truthy (field payload ''amd_decision_timeout'') then
        Some \<lparr> result = TIMEOUT, confidence = JNum 0.5,
               metadata = [''jambonzAmd'' \<mapsto> JStr ''decision_timeout''] \<rparr>
      else None)"


subsection \<open>HuggingFaceDetector\<close>




subsection \<open>GeminiFlashDetector\<close>







subsection \<open>createDetector and the AmdDetector interface\<close>

datatype AmdDetector =
  TwilioNativeDetector | JambonzSipDetector | HuggingFaceDetector | GeminiFlashDetector

text \<open>
  \<^verbatim>\<open>
  export function createDetector(strategy: AmdStrategy): AmdDetector {
    switch (strategy) {
      case AmdStrategy.TWILIO_NATIVE: return new TwilioNativeDetector();
      case AmdStrategy.JAMBONZ_SIP: return new JambonzSipDetector();
      case AmdStrategy.HUGGINGFACE_MODEL: return new HuggingFaceDetector();
      case AmdStrategy.GEMINI_FLASH: return new GeminiFlashDetector();
      default: throw new Error(`Unsupported AMD strategy: ${strategy}`);
    }
  }
  \<close>
\<close>

fun createDetector :: "AmdStrategy \<Rightarrow> AmdDetector" where
  "createDetector TWILIO_NATIVE = TwilioNativeDetector"
| "createDetector JAMBONZ_SIP = JambonzSipDetector"
| "createDetector HUGGINGFACE_MODEL = HuggingFaceDetector"
| "createDetector GEMINI_FLASH = GeminiFlashDetector"


text \<open>The streaming and the transcript strategy hand every webhook to their
  \<^verbatim>\<open>twilioFallback\<close>: \<^verbatim>\<open>return await this.twilioFallback.handleWebhook(payload);\<close>\<close>

fun handleWebhook :: "AmdDetector \<Rightarrow> js_object \<Rightarrow> AmdDetectionResult option" where
  "handleWebhook TwilioNativeDetector = TwilioNative_handleWebhook"
| "handleWebhook JambonzSipDetector = JambonzSip_handleWebhook"
| "handleWebhook HuggingFaceDetector = TwilioNative_handleWebhook"
| "handleWebhook GeminiFlashDetector = TwilioNative_handleWebhook"


section \<open>Event reconciliation (the webhook routes)\<close>

text \<open>
  The call record, with the columns of the \<^verbatim>\<open>calls\<close> table that the routes read or write.
  Each route below is modelled from the point where its lookup has found the record: it
  maps the record found and the request body to the record as the route's
  \<^verbatim>\<open>prisma.call.update\<close> leaves it. \<open>now\<close> is the clock reading \<^verbatim>\<open>new Date()\<close>. The reply
  sent back to the provider does not touch the record and is left out.
\<close>

record call =
  callId :: string
  targetNumber :: string
  amdStrategy :: AmdStrategy
  status :: CallStatus
  amdResult :: "AmdResult option"
  callConfidence :: jsval
  duration :: jsval
  cost :: jsval
  callMetadata :: js_object
  updatedAt :: string

text \<open>The enum value \<^verbatim>\<open>call.amdStrategy\<close> as the string it is at run time.\<close>

fun strategy_name :: "AmdStrategy \<Rightarrow> string" where
  "strategy_name TWILIO_NATIVE = ''TWILIO_NATIVE''"
| "strategy_name JAMBONZ_SIP = ''JAMBONZ_SIP''"
| "strategy_name HUGGINGFACE_MODEL = ''HUGGINGFACE_MODEL''"
| "strategy_name GEMINI_FLASH = ''GEMINI_FLASH''"

text \<open>\<^verbatim>\<open>(duration / 60) * rate\<close>; it is only evaluated on a truthy \<^verbatim>\<open>duration\<close>, which
  is a number, \<^verbatim>\<open>parseInt\<close> having produced it.\<close>

definition per_minute :: "jsval \<Rightarrow> real \<Rightarrow> jsval" where
  "per_minute d rate = (case d of JNum x \<Rightarrow> JNum ((x / 60) * rate) | _ \<Rightarrow> JNaN)"

subsection \<open>The native provider's status webhook (POST /api/webhooks/twilio/status)\<close>

text \<open>
  \<^verbatim>\<open>
  const mapTwilioStatus = (status: string): CallStatus => {
    switch (status) {
      case "queued":
      case "initiated": return CallStatus.INITIATED;
      case "ringing": return CallStatus.RINGING;
      case "in-progress": return CallStatus.ANSWERED;
      case "completed": return CallStatus.COMPLETED;
      case "failed":
      case "busy":
      case "no-answer": return CallStatus.FAILED;
      case "canceled": return CallStatus.CANCELLED;
      default: return CallStatus.INITIATED;
    }
  };
  \<close>
\<close>

definition mapTwilioStatus :: "jsval \<Rightarrow> CallStatus" where
  "mapTwilioStatus st =
     (if st = JStr ''queued'' \<or> st = JStr ''initiated'' then INITIATED
      else if st = JStr ''ringing'' then RINGING
      else if st = JStr ''in-progress'' then ANSWERED
      else if st = JStr ''completed'' then COMPLETED
      else if st = JStr ''failed'' \<or> st = JStr ''busy'' \<or> st = JStr ''no-answer'' then FAILED
      else if st = JStr ''canceled'' then CANCELLED
      else INITIATED)"

text \<open>
  \<^verbatim>\<open>
  const { CallSid, CallStatus: twilioStatus, AnsweringMachineDetectionStatus, AnsweredBy,
          CallDuration } = body;
  ...
  const newStatus = mapTwilioStatus(twilioStatus as string);
  const duration = CallDuration ? parseInt(CallDuration as string) : null;
  const cost = duration ? (duration / 60) * 0.0085 : null;
  let amdResult = call.amdResult;
  let confidence = call.confidence;
  let metadata = (call.metadata as Record<string, any>) || {};
  if (AnsweringMachineDetectionStatus || AnsweredBy) {
    const detector = createDetector(AmdStrategy.TWILIO_NATIVE);
    const amdPayload = { ...body,
      AnsweringMachineDetectionStatus: AnsweringMachineDetectionStatus || AnsweredBy };
    const result = await detector.handleWebhook?.(amdPayload);
    if (result) {
      amdResult = result.result;
      confidence = result.confidence;
      metadata = { ...metadata, ...result.metadata,
        originalAnsweredBy: AnsweredBy, originalStrategy: call.amdStrategy,
        actualProvider: "twilio",
        fallbackUsed: call.amdStrategy !== AmdStrategy.TWILIO_NATIVE };
    }
  }
  await prisma.call.update({ where: { id: call.id },
    data: { status: newStatus, amdResult, confidence, duration, cost, metadata,
            updatedAt: new Date() } });
  \<close>
  The record was found through its metadata, so \<^verbatim>\<open>call.metadata\<close> is an object.
\<close>

definition twilio_status_POST :: "string \<Rightarrow> call \<Rightarrow> js_object \<Rightarrow> call" where
  "twilio_status_POST now call body =
     (let twilioStatus = field body ''CallStatus'';
          AnsweringMachineDetectionStatus = field body ''AnsweringMachineDetectionStatus'';
          AnsweredBy = field body ''AnsweredBy'';
          CallDuration = field body ''CallDuration'';
          newStatus = mapTwilioStatus twilioStatus;
          duration' = (if truthy CallDuration then parseInt CallDuration else JNull);
          cost' = (if truthy duration' then per_minute duration' 0.0085 else JNull);
          res =
            (if truthy (js_or AnsweringMachineDetectionStatus AnsweredBy) then
               handleWebhook (createDetector TWILIO_NATIVE)
                 (body(''AnsweringMachineDetectionStatus'' \<mapsto>
                         js_or AnsweringMachineDetectionStatus AnsweredBy))
             else None)
      in case res of
           Some r \<Rightarrow>
             call \<lparr> status := newStatus,
                    amdResult := Some (result r),
                    callConfidence := confidence r,
                    duration := duration',
                    cost := cost',
                    callMetadata :=
                      callMetadata call ++ metadata r ++
                      [''originalAnsweredBy'' \<mapsto> AnsweredBy,
                       ''originalStrategy'' \<mapsto> JStr (strategy_name (amdStrategy call)),
                       ''actualProvider'' \<mapsto> JStr ''twilio'',
                       ''fallbackUsed'' \<mapsto> JBool (amdStrategy call \<noteq> TWILIO_NATIVE)],
                    updatedAt := now \<rparr>
         | None \<Rightarrow>
             call \<lparr> status := newStatus,
                    amdResult := amdResult call,
                    callConfidence := callConfidence call,
                    duration := duration',
                    cost := cost',
                    callMetadata := callMetadata call,
                    updatedAt := now \<rparr>)"

subsection \<open>The alternate provider's webhooks (POST /api/webhooks/jambonz and POST /api/amd-events)\<close>

text \<open>
  Both routes declare the same status map, a closure over the record found:
  \<^verbatim>\<open>
  const mapJambonzStatus = (status: string): CallStatus => {
    switch (status) {
      case "trying":
      case "proceeding": return CallStatus.INITIATED;
      case "ringing": return CallStatus.RINGING;
      case "early":
      case "in-progress": return CallStatus.ANSWERED;
      case "completed": return CallStatus.COMPLETED;
      case "failed":
      case "busy":
      case "no-answer": return CallStatus.FAILED;
      case "canceled": return CallStatus.CANCELLED;
      default: return call.status;
    }
  };
  \<close>
\<close>

definition mapJambonzStatus :: "call \<Rightarrow> jsval \<Rightarrow> CallStatus" where
  "mapJambonzStatus call st =
     (if st = JStr ''trying'' \<or> st = JStr ''proceeding'' then INITIATED
      else if st = JStr ''ringing'' then RINGING
      else if st = JStr ''early'' \<or> st = JStr ''in-progress'' then ANSWERED
      else if st = JStr ''completed'' then COMPLETED
      else if st = JStr ''failed'' \<or> st = JStr ''busy'' \<or> st = JStr ''no-answer'' then FAILED
      else if st = JStr ''canceled'' then CANCELLED
      else status call)"

text \<open>
  \<^verbatim>\<open>
  const detector = createDetector(AmdStrategy.JAMBONZ_SIP);
  const result = await detector.handleWebhook?.(body);
  ...
  const newStatus = call_status ? mapJambonzStatus(call_status) : call.status;
  const duration = call_duration ? parseInt(call_duration) : null;
  const cost = duration ? (duration / 60) * 0.01 : null;
  const updateData: any = { status: newStatus, updatedAt: new Date() };
  if (result) {
    updateData.amdResult = result.result;
    updateData.confidence = result.confidence;
    updateData.metadata = { ...call.metadata as any, ...result.metadata };
  }
  if (duration !== null) { updateData.duration = duration; }
  if (cost !== null) { updateData.cost = cost; }
  await prisma.call.update({ where: { id: call.id }, data: updateData });
  \<close>
\<close>

definition jambonz_webhook_POST :: "string \<Rightarrow> call \<Rightarrow> js_object \<Rightarrow> call" where
  "jambonz_webhook_POST now call body =
     (let call_status = field body ''call_status'';
          call_duration = field body ''call_duration'';
          res = handleWebhook (createDetector JAMBONZ_SIP) body;
          newStatus = (if truthy call_status then mapJambonzStatus call call_status else status call);
          duration' = (if truthy call_duration then parseInt call_duration else JNull);
          cost' = (if truthy duration' then per_minute duration' 0.01 else JNull);
          c1 = call \<lparr> status := newStatus, updatedAt := now \<rparr>;
          c2 = (case res of
                  None \<Rightarrow> c1
                | Some r \<Rightarrow>
                    c1 \<lparr> amdResult := Some (result r),
                         callConfidence := confidence r,
                         callMetadata := callMetadata call ++ metadata r \<rparr>);
          c3 = (if duration' \<noteq> JNull then c2 \<lparr> duration := duration' \<rparr> else c2)
      in if cost' \<noteq> JNull then c3 \<lparr> cost := cost' \<rparr> else c3)"

text \<open>
  \<^verbatim>\<open>
  const detector = createDetector(call.amdStrategy);
  const result = await detector.handleWebhook?.(body);
  ...
  const newStatus = call_status ? mapJambonzStatus(call_status) : call.status;
  const duration = call_duration ? parseInt(call_duration) : null;
  const calculateCost = (durationSec: number, strategy: AmdStrategy): number => {
    if (strategy === AmdStrategy.JAMBONZ_SIP) { return (durationSec / 60) * 0.008; }
    else { return (durationSec / 60) * 0.0085; }
  };
  const cost = duration ? calculateCost(duration, call.amdStrategy) : null;
  const updateData: any = { status: newStatus, updatedAt: new Date() };
  if (result) {
    updateData.amdResult = result.result;
    updateData.confidence = result.confidence;
    updateData.metadata = { ...call.metadata as any, ...result.metadata,
      lastWebhookReceived: new Date().toISOString(),
      provider: call.amdStrategy === AmdStrategy.JAMBONZ_SIP ? "jambonz" : "twilio" };
  }
  if (duration !== null) { updateData.duration = duration; }
  if (cost !== null) { updateData.cost = cost; }
  await prisma.call.update({ where: { id: call.id }, data: updateData });
  \<close>
  The clock is taken to read the same instant both times.
\<close>

definition calculateCost :: "jsval \<Rightarrow> AmdStrategy \<Rightarrow> jsval" where
  "calculateCost durationSec strategy =
     (if strategy = JAMBONZ_SIP then per_minute durationSec 0.008
      else per_minute durationSec 0.0085)"

definition amd_events_POST :: "string \<Rightarrow> call \<Rightarrow> js_object \<Rightarrow> call" where
  "amd_events_POST now call body =
     (let call_status = field body ''call_status'';
          call_duration = field body ''call_duration'';
          res = handleWebhook (createDetector (amdStrategy call)) body;
          newStatus = (if truthy call_status then mapJambonzStatus call call_status else status call);
          duration' = (if truthy call_duration then parseInt call_duration else JNull);
          cost' = (if truthy duration' then calculateCost duration' (amdStrategy call) else JNull);
          c1 = call \<lparr> status := newStatus, updatedAt := now \<rparr>;
          c2 = (case res of
                  None \<Rightarrow> c1
                | Some r \<Rightarrow>
                    c1 \<lparr> amdResult := Some (result r),
                         callConfidence := confidence r,
                         callMetadata :=
                           callMetadata call ++ metadata r ++
                           [''lastWebhookReceived'' \<mapsto> JStr now,
                            ''provider'' \<mapsto> JStr (if amdStrategy call = JAMBONZ_SIP
                                                  then ''jambonz'' else ''twilio'')] \<rparr>);
          c3 = (if duration' \<noteq> JNull then c2 \<lparr> duration := duration' \<rparr> else c2)
      in if cost' \<noteq> JNull then c3 \<lparr> cost := cost' \<rparr> else c3)"

subsection \<open>Sequences of events on one call record\<close>







section \<open>Concrete records, payloads and environments\<close>

text \<open>A completed call of the native strategy with a recorded verdict, and a call of the
  SIP-enhanced strategy that fell back to the native provider.\<close>

definition completed_call :: call where
  "completed_call =
     \<lparr> callId = ''call-1'', targetNumber = ''+12025550123'', amdStrategy = TWILIO_NATIVE,
       status = COMPLETED, amdResult = Some HUMAN, callConfidence = JNum 0.85,
       duration = JNum 42, cost = JNum 0.00595,
       callMetadata = [''twilioCallSid'' \<mapsto> JStr ''CA01'', ''status'' \<mapsto> JStr ''queued''],
       updatedAt = ''2025-11-02T12:00:00.000Z'' \<rparr>"

definition sip_call :: call where
  "sip_call =
     \<lparr> callId = ''call-2'', targetNumber = ''+919876543210'', amdStrategy = JAMBONZ_SIP,
       status = INITIATED, amdResult = Some UNDECIDED, callConfidence = JNum 0,
       duration = JNull, cost = JNull,
       callMetadata =
         [''twilioCallSid'' \<mapsto> JStr ''CA02'', ''status'' \<mapsto> JStr ''queued'',
          ''fallbackReason'' \<mapsto> JStr ''Jambonz not configured'',
          ''originalProvider'' \<mapsto> JStr ''jambonz'', ''actualProvider'' \<mapsto> JStr ''twilio'',
          ''fallbackUsed'' \<mapsto> JBool True],
       updatedAt = ''2025-11-02T12:00:00.000Z'' \<rparr>"



section \<open>The normalizer's case analysis\<close>

lemma startsWith_single: "startsWith d [c] = (d \<noteq> [] \<and> hd d = c)"
  by (cases d) (auto simp: startsWith_def)

lemma startsWith_pair: "startsWith d [a, b] = (take 2 d = [a, b])"
  by (simp add: startsWith_def numeral_2_eq_2)

lemma phoneRegex_test_iff:
  "phoneRegex_test s \<longleftrightarrow>
     (\<exists>ds. s = CHR ''+'' # ds \<and> 10 \<le> length ds \<and> length ds \<le> 15 \<and> (\<forall>c\<in>set ds. is_digit c))"
  by (cases s) (auto simp: phoneRegex_test_def list_all_iff)

text \<open>
  C4. With \<open>d\<close> the digits of the input in order: no digit gives the empty string, which
  is not valid; 11 digits starting with 1, or 12 digits starting with 91, give \<open>+d\<close>; 10
  digits give \<open>+91d\<close> when the first is 6, 7, 8 or 9 and \<open>+1d\<close> otherwise; more than 12
  digits give \<open>+d\<close>; anything else gives the default country code followed by \<open>d\<close>. The
  function is total, so no input raises. An input is valid exactly when its normal form
  (under the default code \<open>+1\<close>) is a plus sign followed by 10 to 15 digits.
\<close>

theorem formatPhoneNumber_case_analysis:
  "(let d = filter is_digit s in
     (d = [] \<longrightarrow> formatPhoneNumber s cc = [] \<and> \<not> isValidPhoneNumber s) \<and>
     (length d = 11 \<and> hd d = CHR ''1'' \<longrightarrow> formatPhoneNumber s cc = ''+'' @ d) \<and>
     (length d = 12 \<and> take 2 d = ''91'' \<longrightarrow> formatPhoneNumber s cc = ''+'' @ d) \<and>
     (length d = 10 \<and> hd d \<in> set ''6789'' \<longrightarrow> formatPhoneNumber s cc = ''+91'' @ d) \<and>
     (length d = 10 \<and> hd d \<notin> set ''6789'' \<longrightarrow> formatPhoneNumber s cc = ''+1'' @ d) \<and>
     (length d > 12 \<longrightarrow> formatPhoneNumber s cc = ''+'' @ d) \<and>
     (d \<noteq> [] \<and> \<not> (length d = 11 \<and> hd d = CHR ''1'') \<and> \<not> (length d = 12 \<and> take 2 d = ''91'')
        \<and> length d \<noteq> 10 \<and> \<not> length d > 12 \<longrightarrow> formatPhoneNumber s cc = cc @ d)) \<and>
   (isValidPhoneNumber s \<longleftrightarrow>
      (\<exists>ds. formatPhoneNumber s ''+1'' = CHR ''+'' # ds \<and> 10 \<le> length ds \<and> length ds \<le> 15
            \<and> (\<forall>c\<in>set ds. is_digit c)))"
proof -
  have v: "isValidPhoneNumber s \<longleftrightarrow>
      (\<exists>ds. formatPhoneNumber s ''+1'' = CHR ''+'' # ds \<and> 10 \<le> length ds \<and> length ds \<le> 15
            \<and> (\<forall>c\<in>set ds. is_digit c))"
    unfolding isValidPhoneNumber_def by (rule phoneRegex_test_iff)
  have e: "filter is_digit s = [] \<Longrightarrow> formatPhoneNumber s cc = [] \<and> \<not> isValidPhoneNumber s"
    by (simp add: formatPhoneNumber_def isValidPhoneNumber_def phoneRegex_test_def)
  show ?thesis
    unfolding Let_def
    apply (intro conjI impI)
    subgoal using e by simp
    subgoal using e by simp
    subgoal by (auto simp: formatPhoneNumber_def Let_def startsWith_single startsWith_pair)
    subgoal by (auto simp: formatPhoneNumber_def Let_def startsWith_single startsWith_pair)
    subgoal by (auto simp: formatPhoneNumber_def Let_def startsWith_single startsWith_pair)
    subgoal by (auto simp: formatPhoneNumber_def Let_def startsWith_single startsWith_pair)
    subgoal by (auto simp: formatPhoneNumber_def Let_def startsWith_single startsWith_pair)
    subgoal by (auto simp: formatPhoneNumber_def Let_def startsWith_single startsWith_pair)
    subgoal using v by simp
    done
qed

theorem formatPhoneNumber_case_analysis_witness:
  "formatPhoneNumber '''' ''+1'' = '''' \<and> \<not> isValidPhoneNumber ''''
   \<and> formatPhoneNumber ''1 (202) 555-0123'' ''+1'' = ''+12025550123''
   \<and> formatPhoneNumber ''91 98765 43210'' ''+1'' = ''+919876543210''
   \<and> formatPhoneNumber ''9876543210'' ''+1'' = ''+919876543210''
   \<and> formatPhoneNumber ''202-555-0123'' ''+1'' = ''+12025550123''
   \<and> formatPhoneNumber ''+44 7911 123456 7'' ''+1'' = ''+4479111234567''
   \<and> formatPhoneNumber ''555-0123'' ''+49'' = ''+495550123''
   \<and> isValidPhoneNumber ''202-555-0123''"
  using formatPhoneNumber_case_analysis [of "''''" "''+1''"]
    formatPhoneNumber_case_analysis [of "''1 (202) 555-0123''" "''+1''"]
    formatPhoneNumber_case_analysis [of "''91 98765 43210''" "''+1''"]
    formatPhoneNumber_case_analysis [of "''9876543210''" "''+1''"]
    formatPhoneNumber_case_analysis [of "''202-555-0123''" "''+1''"]
    formatPhoneNumber_case_analysis [of "''+44 7911 123456 7''" "''+1''"]
    formatPhoneNumber_case_analysis [of "''555-0123''" "''+49''"]
  by (simp add: is_digit_def Let_def)

section \<open>Canonical numbers under the normalizer\<close>

text \<open>
  C5, as the source has it. The normalizer drops the plus sign with every other non-digit
  and decides on the digits alone, so a canonical number is returned unchanged only when
  its digits fall in a branch that puts the plus sign back. A canonical United Kingdom
  number, 12 digits starting with 44, gets the default country code in front of it.
\<close>

theorem formatPhoneNumber_not_idempotent:
  "phoneRegex_test ''+447911123456'' \<and> formatPhoneNumber ''+447911123456'' ''+1'' \<noteq> ''+447911123456''"
  by (simp add: phoneRegex_test_def formatPhoneNumber_def is_digit_def startsWith_def)

text \<open>
  C5, amended. For a plus sign followed by 10 to 15 digits: when the digits are 11 starting
  with 1, or 12 starting with 91, or 13 to 15, the number is returned unchanged whatever the
  default country code; and under the default code \<open>+1\<close> these are the only canonical
  numbers returned unchanged.
\<close>

theorem formatPhoneNumber_canonical_fixed:
  assumes "phoneRegex_test s"
  shows "((length (tl s) = 11 \<and> hd (tl s) = CHR ''1'') \<or> (length (tl s) = 12 \<and> take 2 (tl s) = ''91'')
            \<or> 12 < length (tl s) \<longrightarrow> formatPhoneNumber s cc = s)
         \<and> (formatPhoneNumber s ''+1'' = s \<longleftrightarrow>
              (length (tl s) = 11 \<and> hd (tl s) = CHR ''1'') \<or> (length (tl s) = 12 \<and> take 2 (tl s) = ''91'')
              \<or> 12 < length (tl s))"
proof -
  from assms obtain d where s: "s = CHR ''+'' # d" and len: "10 \<le> length d" "length d \<le> 15"
    and dig: "\<forall>c\<in>set d. is_digit c"
    unfolding phoneRegex_test_iff by blast
  have f: "filter is_digit (CHR ''+'' # d) = d"
    using dig by (simp add: is_digit_def filter_id_conv)
  have fmt: "formatPhoneNumber (CHR ''+'' # d) c =
     (if length d = 11 \<and> hd d = CHR ''1'' then CHR ''+'' # d
      else if length d = 12 \<and> take 2 d = ''91'' then CHR ''+'' # d
      else if length d = 10 then (if hd d \<in> set ''6789'' then ''+91'' @ d else ''+1'' @ d)
      else if 12 < length d then CHR ''+'' # d
      else c @ d)" for c
    using len unfolding formatPhoneNumber_def f Let_def
    by (auto simp: startsWith_single startsWith_pair)
  have a: "(length d = 11 \<and> hd d = CHR ''1'') \<or> (length d = 12 \<and> take 2 d = ''91'') \<or> 12 < length d
        \<Longrightarrow> formatPhoneNumber (CHR ''+'' # d) c = CHR ''+'' # d" for c
    by (subst fmt) auto
  have b: "(length d = 11 \<and> hd d = CHR ''1'') \<or> (length d = 12 \<and> take 2 d = ''91'') \<or> 12 < length d"
    if eq: "formatPhoneNumber (CHR ''+'' # d) ''+1'' = CHR ''+'' # d"
  proof (rule ccontr)
    assume n: "\<not> ((length d = 11 \<and> hd d = CHR ''1'') \<or> (length d = 12 \<and> take 2 d = ''91'') \<or> 12 < length d)"
    have "length (formatPhoneNumber (CHR ''+'' # d) ''+1'') = Suc (length d)" using eq by simp
    moreover have "length (formatPhoneNumber (CHR ''+'' # d) ''+1'') > Suc (length d)"
      using n by (subst fmt) auto
    ultimately show False by simp
  qed
  show ?thesis unfolding s list.sel using a b by blast
qed

theorem formatPhoneNumber_canonical_fixed_witness:
  "phoneRegex_test ''+12025550123'' \<and> formatPhoneNumber ''+12025550123'' ''+1'' = ''+12025550123''
   \<and> phoneRegex_test ''+919876543210'' \<and> formatPhoneNumber ''+919876543210'' ''+49'' = ''+919876543210''
   \<and> phoneRegex_test ''+4479111234567'' \<and> formatPhoneNumber ''+4479111234567'' ''+1'' = ''+4479111234567''
   \<and> phoneRegex_test ''+2025550123'' \<and> formatPhoneNumber ''+2025550123'' ''+1'' \<noteq> ''+2025550123''"
  using formatPhoneNumber_canonical_fixed [of "''+12025550123''" "''+1''"]
    formatPhoneNumber_canonical_fixed [of "''+919876543210''" "''+49''"]
    formatPhoneNumber_canonical_fixed [of "''+4479111234567''" "''+1''"]
    formatPhoneNumber_canonical_fixed [of "''+2025550123''" "''+1''"]
  by (simp add: phoneRegex_test_def is_digit_def)

section \<open>The routes in normal form\<close>

text \<open>
  The status route builds the payload it hands to the native strategy by overwriting one
  field; the strategy's answer is the same as on the request body itself, and it is null
  exactly when the body carries no truthy classification. So each route's effect is: write
  the status, duration, cost and time stamp, and, when the strategy selected returns a
  result, the verdict, the confidence and the merged metadata.
\<close>

lemma js_or_idem: "js_or (js_or a b) b = js_or a b"
  by (simp add: js_or_def)

lemma field_upd: "field (m(k \<mapsto> v)) k' = (if k' = k then v else field m k')"
  by (simp add: field_def)

lemma TwilioNative_handleWebhook_cong:
  assumes "js_or (field p ''AnsweringMachineDetectionStatus'') (field p ''AnsweredBy'')
           = js_or (field q ''AnsweringMachineDetectionStatus'') (field q ''AnsweredBy'')"
    and "truthy (field p ''AnsweredBy'') = truthy (field q ''AnsweredBy'')"
  shows "TwilioNative_handleWebhook p = TwilioNative_handleWebhook q"
  unfolding TwilioNative_handleWebhook_def Let_def assms ..

lemma TwilioNative_handleWebhook_amdPayload:
  "TwilioNative_handleWebhook
     (body(''AnsweringMachineDetectionStatus'' \<mapsto>
        js_or (field body ''AnsweringMachineDetectionStatus'') (field body ''AnsweredBy'')))
   = TwilioNative_handleWebhook body"
  by (rule TwilioNative_handleWebhook_cong) (simp_all add: field_upd js_or_idem)

lemma TwilioNative_handleWebhook_None:
  "TwilioNative_handleWebhook body = None \<longleftrightarrow>
     \<not> truthy (js_or (field body ''AnsweringMachineDetectionStatus'') (field body ''AnsweredBy''))"
  unfolding TwilioNative_handleWebhook_def Let_def by simp

lemma twilio_status_POST_eq:
  "twilio_status_POST now c body =
     (let d = (if truthy (field body ''CallDuration'') then parseInt (field body ''CallDuration'') else JNull);
          c1 = c \<lparr> status := mapTwilioStatus (field body ''CallStatus''),
                   duration := d,
                   cost := (if truthy d then per_minute d 0.0085 else JNull),
                   updatedAt := now \<rparr>
      in case TwilioNative_handleWebhook body of
           None \<Rightarrow> c1
         | Some r \<Rightarrow>
             c1 \<lparr> amdResult := Some (result r), callConfidence := confidence r,
                  callMetadata := callMetadata c ++ metadata r ++
                      [''originalAnsweredBy'' \<mapsto> field body ''AnsweredBy'',
                       ''originalStrategy'' \<mapsto> JStr (strategy_name (amdStrategy c)),
                       ''actualProvider'' \<mapsto> JStr ''twilio'',
                       ''fallbackUsed'' \<mapsto> JBool (amdStrategy c \<noteq> TWILIO_NATIVE)] \<rparr>)"
proof -
  have res: "(if truthy (js_or (field body ''AnsweringMachineDetectionStatus'') (field body ''AnsweredBy''))
        then handleWebhook (createDetector TWILIO_NATIVE)
          (body(''AnsweringMachineDetectionStatus'' \<mapsto>
             js_or (field body ''AnsweringMachineDetectionStatus'') (field body ''AnsweredBy'')))
        else None) = TwilioNative_handleWebhook body"
  proof (cases "truthy (js_or (field body ''AnsweringMachineDetectionStatus'') (field body ''AnsweredBy''))")
    case True
    then show ?thesis by (simp add: TwilioNative_handleWebhook_amdPayload)
  next
    case False
    then have "TwilioNative_handleWebhook body = None"
      by (simp add: TwilioNative_handleWebhook_None)
    with False show ?thesis by simp
  qed
  show ?thesis
    unfolding twilio_status_POST_def Let_def res
    by (cases "TwilioNative_handleWebhook body") simp_all
qed

lemma jambonz_webhook_POST_eq:
  "jambonz_webhook_POST now c body =
     (let d = (if truthy (field body ''call_duration'') then parseInt (field body ''call_duration'') else JNull);
          k = (if truthy d then per_minute d 0.01 else JNull);
          c1 = c \<lparr> status := (if truthy (field body ''call_status'')
                                then mapJambonzStatus c (field body ''call_status'') else status c),
                   duration := (if d \<noteq> JNull then d else duration c),
                   cost := (if k \<noteq> JNull then k else cost c),
                   updatedAt := now \<rparr>
      in case JambonzSip_handleWebhook body of
           None \<Rightarrow> c1
         | Some r \<Rightarrow>
             c1 \<lparr> amdResult := Some (result r), callConfidence := confidence r,
                  callMetadata := callMetadata c ++ metadata r \<rparr>)"
  unfolding jambonz_webhook_POST_def Let_def
  by (cases "JambonzSip_handleWebhook body") simp_all

lemma amd_events_POST_eq:
  "amd_events_POST now c body =
     (let d = (if truthy (field body ''call_duration'') then parseInt (field body ''call_duration'') else JNull);
          k = (if truthy d then calculateCost d (amdStrategy c) else JNull);
          c1 = c \<lparr> status := (if truthy (field body ''call_status'')
                                then mapJambonzStatus c (field body ''call_status'') else status c),
                   duration := (if d \<noteq> JNull then d else duration c),
                   cost := (if k \<noteq> JNull then k else cost c),
                   updatedAt := now \<rparr>
      in case handleWebhook (createDetector (amdStrategy c)) body of
           None \<Rightarrow> c1
         | Some r \<Rightarrow>
             c1 \<lparr> amdResult := Some (result r), callConfidence := confidence r,
                  callMetadata := callMetadata c ++ metadata r ++
                           [''lastWebhookReceived'' \<mapsto> JStr now,
                            ''provider'' \<mapsto> JStr (if amdStrategy c = JAMBONZ_SIP
                                                  then ''jambonz'' else ''twilio'')] \<rparr>)"
  unfolding amd_events_POST_def Let_def
  by (cases "handleWebhook (createDetector (amdStrategy c)) body") simp_all

section \<open>Events without a new signal\<close>







section \<open>Status mapping\<close>

text \<open>
  Each route maps its provider's vocabulary into the internal status set. On a value
  outside the vocabulary the two routes of the alternate provider return the record's
  current status; the native provider's route returns \<open>INITIATED\<close>.
\<close>

lemma mapTwilioStatus_vocabulary:
  "mapTwilioStatus (JStr ''queued'') = INITIATED \<and> mapTwilioStatus (JStr ''initiated'') = INITIATED
   \<and> mapTwilioStatus (JStr ''ringing'') = RINGING \<and> mapTwilioStatus (JStr ''in-progress'') = ANSWERED
   \<and> mapTwilioStatus (JStr ''completed'') = COMPLETED \<and> mapTwilioStatus (JStr ''failed'') = FAILED
   \<and> mapTwilioStatus (JStr ''busy'') = FAILED \<and> mapTwilioStatus (JStr ''no-answer'') = FAILED
   \<and> mapTwilioStatus (JStr ''canceled'') = CANCELLED"
  by (simp add: mapTwilioStatus_def)

lemma mapJambonzStatus_vocabulary:
  "mapJambonzStatus c (JStr ''trying'') = INITIATED \<and> mapJambonzStatus c (JStr ''proceeding'') = INITIATED
   \<and> mapJambonzStatus c (JStr ''ringing'') = RINGING \<and> mapJambonzStatus c (JStr ''early'') = ANSWERED
   \<and> mapJambonzStatus c (JStr ''in-progress'') = ANSWERED
   \<and> mapJambonzStatus c (JStr ''completed'') = COMPLETED \<and> mapJambonzStatus c (JStr ''failed'') = FAILED
   \<and> mapJambonzStatus c (JStr ''busy'') = FAILED \<and> mapJambonzStatus c (JStr ''no-answer'') = FAILED
   \<and> mapJambonzStatus c (JStr ''canceled'') = CANCELLED"
  by (simp add: mapJambonzStatus_def)

lemma twilio_status_POST_status:
  "status (twilio_status_POST now c body) = mapTwilioStatus (field body ''CallStatus'')"
  by (cases "TwilioNative_handleWebhook body") (simp_all add: twilio_status_POST_eq Let_def)

lemma jambonz_webhook_POST_status:
  "status (jambonz_webhook_POST now c body) =
     (if truthy (field body ''call_status'') then mapJambonzStatus c (field body ''call_status'')
      else status c)"
  by (cases "JambonzSip_handleWebhook body") (simp_all add: jambonz_webhook_POST_eq Let_def)

lemma amd_events_POST_status:
  "status (amd_events_POST now c body) =
     (if truthy (field body ''call_status'') then mapJambonzStatus c (field body ''call_status'')
      else status c)"
  by (cases "handleWebhook (createDetector (amdStrategy c)) body")
     (simp_all add: amd_events_POST_eq Let_def)

lemma jambonz_routes_keep_unmapped_status:
  assumes "field body ''call_status'' \<notin>
             JStr ` {''trying'', ''proceeding'', ''ringing'', ''early'', ''in-progress'', ''completed'',
                     ''failed'', ''busy'', ''no-answer'', ''canceled''}"
  shows "status (jambonz_webhook_POST now c body) = status c"
    and "status (amd_events_POST now c body) = status c"
  using assms by (auto simp: jambonz_webhook_POST_status amd_events_POST_status mapJambonzStatus_def)

text \<open>
  C3, at a status value outside the vocabulary. A completed call receives a status
  callback whose status is \<^verbatim>\<open>answered\<close>: the native provider's route writes \<open>INITIATED\<close>
  over \<open>COMPLETED\<close>, while the alternate provider's route, given the same value, keeps
  \<open>COMPLETED\<close>.
\<close>

theorem twilio_status_unmapped_resets:
  "status completed_call = COMPLETED
   \<and> status (twilio_status_POST ''2025-11-02T12:00:05.000Z'' completed_call
               [''CallSid'' \<mapsto> JStr ''CA01'', ''CallStatus'' \<mapsto> JStr ''answered'']) = INITIATED
   \<and> status (amd_events_POST ''2025-11-02T12:00:05.000Z'' completed_call
               [''call_sid'' \<mapsto> JStr ''CA01'', ''call_status'' \<mapsto> JStr ''answered'']) = COMPLETED"
  by (simp add: twilio_status_POST_status amd_events_POST_status mapTwilioStatus_def
        mapJambonzStatus_def field_def completed_call_def)

section \<open>The native strategy's verdicts\<close>

text \<open>
  The verdict is decided by the first truthy one of \<^verbatim>\<open>AnsweringMachineDetectionStatus\<close> and
  \<^verbatim>\<open>AnsweredBy\<close>: the values listed in the \<^verbatim>\<open>switch\<close> get their verdicts, every other
  truthy value is undecided, and no truthy value gives null.
\<close>

lemma TwilioNative_handleWebhook_verdicts:
  "(let s = js_or (field p ''AnsweringMachineDetectionStatus'') (field p ''AnsweredBy'');
        r = TwilioNative_handleWebhook p
    in (\<not> truthy s \<longrightarrow> r = None)
       \<and> (s = JStr ''human'' \<longrightarrow> map_option result r = Some HUMAN \<and> map_option confidence r = Some (JNum 0.85))
       \<and> (s \<in> JStr ` {''machine_start'', ''machine_end_beep'', ''machine_end_silence'', ''machine''} \<longrightarrow>
            map_option result r = Some MACHINE \<and> map_option confidence r = Some (JNum 0.8))
       \<and> (s = JStr ''fax'' \<longrightarrow> map_option result r = Some MACHINE \<and> map_option confidence r = Some (JNum 0.9))
       \<and> (truthy s \<and> s \<notin> JStr ` {''human'', ''machine_start'', ''machine_end_beep'', ''machine_end_silence'',
                                 ''machine'', ''fax''} \<longrightarrow>
            map_option result r = Some UNDECIDED \<and> map_option confidence r = Some (JNum 0.3)))"
  unfolding TwilioNative_handleWebhook_def Let_def by auto

text \<open>
  C6, at the classification \<^verbatim>\<open>machine_end_other\<close>, which the provider reports for a
  machine whose greeting ended without a beep or a silence: it is not among the cases of
  the \<^verbatim>\<open>switch\<close>, so the verdict is UNDECIDED with confidence 0.3, not MACHINE with 0.8.
\<close>

theorem TwilioNative_handleWebhook_machine_end_other:
  "TwilioNative_handleWebhook [''AnsweredBy'' \<mapsto> JStr ''machine_end_other'']
   = Some \<lparr> result = UNDECIDED, confidence = JNum 0.3,
            metadata = [''twilioAmd'' \<mapsto> JStr ''machine_end_other'',
                        ''source'' \<mapsto> JStr ''AnsweredBy''] \<rparr>"
  by (simp add: TwilioNative_handleWebhook_def field_def js_or_def)

section \<open>Merging metadata\<close>











section \<open>The transcript classification on unparseable answers\<close>

text \<open>\<open>str_includes\<close> is the substring test.\<close>

lemma str_includes_iff: "str_includes s t \<longleftrightarrow> (\<exists>p q. s = p @ t @ q)"
proof (induction s)
  case Nil
  then show ?case by auto
next
  case (Cons c s)
  have sw: "startsWith (c # s) t \<longleftrightarrow> (\<exists>q. c # s = t @ q)"
    unfolding startsWith_def
    by (metis append_eq_conv_conj append_take_drop_id)
  show ?case
  proof
    assume "str_includes (c # s) t"
    then consider "startsWith (c # s) t" | "str_includes s t" by auto
    then show "\<exists>p q. c # s = p @ t @ q"
    proof cases
      case 1
      then obtain q where "c # s = t @ q" using sw by blast
      then have "c # s = [] @ t @ q" by simp
      then show ?thesis by blast
    next
      case 2
      then obtain p q where "s = p @ t @ q" using Cons.IH by blast
      then have "c # s = (c # p) @ t @ q" by simp
      then show ?thesis by blast
    qed
  next
    assume "\<exists>p q. c # s = p @ t @ q"
    then obtain p q where e: "c # s = p @ t @ q" by blast
    show "str_includes (c # s) t"
    proof (cases p)
      case Nil
      with e have "startsWith (c # s) t" using sw by auto
      then show ?thesis by simp
    next
      case (Cons a p')
      with e have "s = p' @ t @ q" by simp
      then have "str_includes s t" using Cons.IH by blast
      then show ?thesis by simp
    qed
  qed
qed






section \<open>Confidence values\<close>

















section \<open>Falling back to the native strategy\<close>









section \<open>Duration and cost on the native provider's status route\<close>

text \<open>
  C10, as the source has it. A payload whose \<^verbatim>\<open>CallDuration\<close> is the string \<^verbatim>\<open>0\<close> is
  truthy, so it is parsed and the duration written is the number 0, not null (the cost
  written is null).
\<close>

theorem twilio_status_zero_duration:
  "duration (twilio_status_POST ''2025-11-02T12:00:05.000Z'' completed_call
               [''CallSid'' \<mapsto> JStr ''CA01'', ''CallStatus'' \<mapsto> JStr ''completed'',
                ''CallDuration'' \<mapsto> JStr ''0'']) = JNum 0"
  by (cases "TwilioNative_handleWebhook [''CallSid'' \<mapsto> JStr ''CA01'', ''CallStatus'' \<mapsto> JStr ''completed'',
                ''CallDuration'' \<mapsto> JStr ''0'']")
     (simp_all add: twilio_status_POST_eq Let_def field_def parseInt_string_def startsWith_def is_ws_def
        digit_value_def digits_value_def to_lower_def)

text \<open>
  C10, amended. Every event writes both fields. Without a \<^verbatim>\<open>CallDuration\<close> (absent or
  empty) both are written as null, whatever the record held. With one, the duration written
  is \<^verbatim>\<open>parseInt(CallDuration)\<close>; the cost written is null when that is 0 or NaN, and
  (duration / 60) * 0.0085 otherwise, for a call of any strategy.
\<close>

theorem twilio_status_duration_cost:
  "(let cd = field body ''CallDuration''; c' = twilio_status_POST now c body
    in (\<not> truthy cd \<longrightarrow> duration c' = JNull \<and> cost c' = JNull)
       \<and> (truthy cd \<longrightarrow> duration c' = parseInt cd)
       \<and> (truthy cd \<and> (parseInt cd = JNum 0 \<or> parseInt cd = JNaN) \<longrightarrow> cost c' = JNull)
       \<and> (\<forall>d. truthy cd \<and> parseInt cd = JNum d \<and> d \<noteq> 0 \<longrightarrow> cost c' = JNum ((d / 60) * 0.0085)))"
  by (cases "TwilioNative_handleWebhook body")
     (auto simp: twilio_status_POST_eq Let_def per_minute_def)

theorem twilio_status_duration_cost_witness:
  "truthy (JStr ''42'') \<and> parseInt (JStr ''42'') = JNum 42
   \<and> duration (twilio_status_POST ''2025-11-02T12:00:05.000Z'' sip_call
        [''CallStatus'' \<mapsto> JStr ''completed'', ''CallDuration'' \<mapsto> JStr ''42'']) = JNum 42
   \<and> cost (twilio_status_POST ''2025-11-02T12:00:05.000Z'' sip_call
        [''CallStatus'' \<mapsto> JStr ''completed'', ''CallDuration'' \<mapsto> JStr ''42'']) = JNum 0.00595
   \<and> duration (twilio_status_POST ''2025-11-02T12:00:05.000Z'' completed_call
        [''CallStatus'' \<mapsto> JStr ''completed'']) = JNull
   \<and> cost (twilio_status_POST ''2025-11-02T12:00:05.000Z'' completed_call
        [''CallStatus'' \<mapsto> JStr ''completed'']) = JNull
   \<and> parseInt (JStr ''0'') = JNum 0
   \<and> cost (twilio_status_POST ''2025-11-02T12:00:05.000Z'' completed_call
        [''CallStatus'' \<mapsto> JStr ''completed'', ''CallDuration'' \<mapsto> JStr ''0'']) = JNull"
proof -
  have p: "parseInt (JStr ''42'') = JNum 42"
    by (simp add: parseInt_string_def startsWith_def is_ws_def digit_value_def digits_value_def
          to_lower_def)
  have z: "parseInt (JStr ''0'') = JNum 0"
    by (simp add: parseInt_string_def startsWith_def is_ws_def digit_value_def digits_value_def
          to_lower_def)
  from twilio_status_duration_cost [of "[''CallStatus'' \<mapsto> JStr ''completed'', ''CallDuration'' \<mapsto> JStr ''42'']"
          "''2025-11-02T12:00:05.000Z''" sip_call]
       twilio_status_duration_cost [of "[''CallStatus'' \<mapsto> JStr ''completed'']"
          "''2025-11-02T12:00:05.000Z''" completed_call]
       twilio_status_duration_cost [of "[''CallStatus'' \<mapsto> JStr ''completed'', ''CallDuration'' \<mapsto> JStr ''0'']"
          "''2025-11-02T12:00:05.000Z''" completed_call] p z
  show ?thesis by (simp add: field_def Let_def)
qed

end
